theory Spec2Isabelle
  imports Complex_Main
begin

text \<open>
  The recipe controller of the recipe API, \<^verbatim>\<open>controllers/recipe.controller.js\<close>: the
  handlers \<^verbatim>\<open>createRecipe\<close>, \<^verbatim>\<open>updateRecipe\<close>, \<^verbatim>\<open>saveRecipe\<close> and
  \<^verbatim>\<open>generateRecipeImage\<close> with the helpers \<^verbatim>\<open>normalizeCategory\<close>,
  \<^verbatim>\<open>parseNutrition\<close> and \<^verbatim>\<open>safeJsonParse\<close>, each as a function of the request,
  the store and the world outside, returning the response and the store it leaves.
\<close>

section \<open>JavaScript values\<close>

text \<open>
  The handlers of \<^verbatim>\<open>controllers/recipe.controller.js\<close> receive JSON values (the request
  body, the parsed answer of the AI service) and test them with JavaScript truthiness.
  A number is the IEEE double the JSON parser produced: a finite value, an infinity or NaN.
  A string is a list of 8-bit characters, read as the code units U+0000 to U+00FF.
\<close>

datatype jsnum = Fin rat | PosInf | NegInf | NaN

datatype jsval =
    JUndefined
  | JNull
  | JBool bool
  | JNum jsnum
  | JStr string
  | JArr "jsval list"
  | JObj "(string \<times> jsval) list"

text \<open>\<^verbatim>\<open>if (v)\<close> and \<^verbatim>\<open>!v\<close>: undefined, null, false, 0, NaN and the empty string are
  falsy; every array and every object is truthy, the empty ones too.\<close>

fun truthy :: "jsval \<Rightarrow> bool" where
  "truthy JUndefined = False"
| "truthy JNull = False"
| "truthy (JBool b) = b"
| "truthy (JNum n) = (n \<noteq> Fin 0 \<and> n \<noteq> NaN)"
| "truthy (JStr s) = (s \<noteq> [])"
| "truthy (JArr xs) = True"
| "truthy (JObj kvs) = True"


text \<open>Exceptions: the TypeError of the runtime, the CastError and the ValidationError of
  Mongoose, and whatever else a library call or the store throws, with its message.\<close>

datatype exn = TypeError | CastError | ValidationError | Thrown string

section \<open>Category normalisation\<close>

text \<open>\<^verbatim>\<open>String.prototype.toLowerCase\<close> on the code units below U+0100: A to Z and the
  Latin-1 capitals U+00C0 to U+00DE (U+00D7, the multiplication sign, apart) move up by 32.\<close>

definition toLowerCase_char :: "char \<Rightarrow> char" where
  "toLowerCase_char c =
     (let n = (of_char c :: nat) in
      if (65 \<le> n \<and> n \<le> 90) \<or> (192 \<le> n \<and> n \<le> 222 \<and> n \<noteq> 215)
      then char_of (n + 32) else c)"

definition toLowerCase :: "string \<Rightarrow> string" where
  "toLowerCase s = map toLowerCase_char s"

text \<open>The character class \<^verbatim>\<open>[a-z]\<close>; \<^verbatim>\<open>replace(/[^a-z]/g, "")\<close> keeps exactly
  its members.\<close>

definition is_az :: "char \<Rightarrow> bool" where
  "is_az c = (97 \<le> (of_char c :: nat) \<and> (of_char c :: nat) \<le> 122)"

definition strip_non_az :: "string \<Rightarrow> string" where
  "strip_non_az s = filter is_az s"

text \<open>
  \<^verbatim>\<open>
  function normalizeCategory(cat) {
    if (!cat) return "other";
    const cleaned = cat.toLowerCase().replace(/[^a-z]/g, "");
    if (["veg", "vegetarian"].includes(cleaned)) return "vegetarian";
    if (["nonveg", "nonvegetarian"].includes(cleaned)) return "non-vegetarian";
    if (["vegan"].includes(cleaned)) return "vegan";
    if (["spicy"].includes(cleaned)) return "spicy";
    return "other";
  }
  \<close>
  The argument is whatever the request body holds. A truthy value that is not a string has
  no \<^verbatim>\<open>toLowerCase\<close>: the call throws.
\<close>

definition normalizeCategory :: "jsval \<Rightarrow> exn + string" where
  "normalizeCategory cat =
     (if \<not> truthy cat then Inr ''other''
      else case cat of
        JStr s \<Rightarrow>
          (let cleaned = strip_non_az (toLowerCase s) in
           if cleaned \<in> set [''veg'', ''vegetarian''] then Inr ''vegetarian''
           else if cleaned \<in> set [''nonveg'', ''nonvegetarian''] then Inr ''non-vegetarian''
           else if cleaned \<in> set [''vegan''] then Inr ''vegan''
           else if cleaned \<in> set [''spicy''] then Inr ''spicy''
           else Inr ''other'')
      | _ \<Rightarrow> Inl TypeError)"

text \<open>The five tags, and the lookup table as the specification words it: lower-case,
  strip what is not a letter, look the result up, default to other.\<close>

definition category_tags :: "string list" where
  "category_tags = [''vegetarian'', ''non-vegetarian'', ''vegan'', ''spicy'', ''other'']"

definition category_table :: "(string \<times> string) list" where
  "category_table =
     [(''veg'', ''vegetarian''), (''vegetarian'', ''vegetarian''),
      (''nonveg'', ''non-vegetarian''), (''nonvegetarian'', ''non-vegetarian''),
      (''vegan'', ''vegan''), (''spicy'', ''spicy'')]"

definition normalizeCategory_spec :: "string \<Rightarrow> string" where
  "normalizeCategory_spec s =
     (case map_of category_table (strip_non_az (toLowerCase s)) of
        Some tag \<Rightarrow> tag
      | None \<Rightarrow> ''other'')"

section \<open>Documents, store, responses\<close>

text \<open>
  The Recipe schema of \<^verbatim>\<open>models/Recipe.model.js\<close>. A field holds a JavaScript value:
  what the setter of its schema type made of the value a handler assigned (a string for a
  \<^verbatim>\<open>String\<close> path, an array for a \<^verbatim>\<open>[String]\<close> path, an object for the nested
  \<^verbatim>\<open>nutritionalInfo\<close>). \<^verbatim>\<open>savedBy\<close> is the array of user ids.
\<close>

type_synonym objectId = string

record recipe =
  title :: jsval
  description :: jsval
  ingredients :: jsval
  instructions :: jsval
  portionSize :: jsval
  category :: jsval
  difficulty :: jsval
  image :: jsval
  ratings :: jsval
  averageRating :: jsval
  savedBy :: "objectId list"
  nutritionalInfo :: jsval
  tags :: jsval
  cuisine :: jsval

text \<open>Of the User document the handlers read and write \<^verbatim>\<open>savedRecipes\<close> only; the field
  may be missing (\<^verbatim>\<open>if (!user.savedRecipes) user.savedRecipes = []\<close>).\<close>

record user =
  savedRecipes :: "objectId list option"

text \<open>The two collections, by id. An id is the 24 digit hexadecimal text of an object id;
  documents are stored under such ids only.\<close>

record store =
  recipes :: "objectId \<rightharpoonup> recipe"
  users :: "objectId \<rightharpoonup> user"

text \<open>The JSON bodies the handlers send, by shape; \<^verbatim>\<open>error.message\<close> is kept as the
  exception itself.\<close>

datatype body =
    BMessage string
  | BError string
  | BMessageError string exn
  | BErrorDetails string exn
  | BErrorRaw string string
  | BMessageRecipe string recipe
  | BMessageSaved string "objectId list"

record response =
  status :: nat
  body :: body

subsection \<open>The answer of the AI service\<close>

text \<open>What the handlers read of it: the text, and the candidates with the parts of their
  content; a part may carry inline data, a MIME type with a base64 payload. The list of
  candidates may be missing, and so may the content or the parts of a candidate (\<open>None\<close>):
  reading \<^verbatim>\<open>candidate.content.parts\<close> for the loop throws there.\<close>

record blob =
  mimeType :: string
  data :: string

record part =
  inlineData :: "blob option"

type_synonym candidate = "part list option"

record ai_response =
  response_text :: string
  candidates :: "candidate list option"

subsection \<open>The world around a request\<close>

text \<open>
  What a handler gets from outside the repository: the environment variable, the AI client
  (model name and prompt to an answer, or an exception), the \<^verbatim>\<open>jsonrepair\<close> package,
  \<^verbatim>\<open>JSON.parse\<close>, the number routines of the runtime, and of Mongoose
  \<^item> which texts it takes for an object id (\<^verbatim>\<open>findById\<close> throws a CastError on the
    others),
  \<^item> what the setter of a \<^verbatim>\<open>String\<close> path makes of an object (\<open>None\<close>: it refuses
    it), what an array path holds after null or undefined was assigned, and what the
    nested \<^verbatim>\<open>nutritionalInfo\<close> holds after a value was assigned (the keys and values, or
    \<open>None\<close> for a value it refuses),
  \<^item> the outcome of each \<^verbatim>\<open>save()\<close> (\<open>None\<close>: written; \<open>Some e\<close>: it throws \<open>e\<close>,
    a validation error say, and nothing is written),
  \<^item> the id a new document receives.

  The text of a number is never empty: \<^verbatim>\<open>Number.prototype.toString\<close> is given as its
  first character and the rest. Every theorem below holds for every world.
\<close>

record world =
  GOOGLE_API_KEY :: "string option"
  generateContent :: "string \<Rightarrow> string \<Rightarrow> exn + ai_response"
  jsonrepair :: "string \<Rightarrow> exn + string"
  JSON_parse :: "string \<Rightarrow> exn + jsval"
  Number_toString :: "jsnum \<Rightarrow> char \<times> string"
  parseFloat :: "string \<Rightarrow> jsnum"
  toFixed2 :: "jsnum \<Rightarrow> string"
  validObjectId :: "string \<Rightarrow> bool"
  castObjectToString :: "(string \<times> jsval) list \<Rightarrow> (char \<times> string) option"
  arrayOfNullish :: "jsval \<Rightarrow> jsval"
  castNutrition :: "jsval \<Rightarrow> (string \<times> jsval) list option"
  user_save :: "objectId \<Rightarrow> user \<Rightarrow> exn option"
  recipe_save :: "objectId \<Rightarrow> recipe \<Rightarrow> exn option"
  new_id :: objectId

text \<open>The calls a handler makes to the AI client, to \<^verbatim>\<open>jsonrepair\<close> and to
  \<^verbatim>\<open>JSON.parse\<close>, in the order it makes them.\<close>

datatype event =
    AICall string string
  | Repair string
  | Parse string

section \<open>Conversions of the runtime\<close>

text \<open>
  The string a template literal or \<^verbatim>\<open>toString()\<close> makes of a JSON value. Numbers go
  through the runtime's number formatting, taken from the world. An array joins its
  elements with commas, null and undefined giving the empty string. An object prints as
  \<^verbatim>\<open>[object Object]\<close>, unless it has a key \<^verbatim>\<open>toString\<close> of its own: that value is
  not a function, and the conversion throws.
\<close>

definition numberString :: "world \<Rightarrow> jsnum \<Rightarrow> string" where
  "numberString w n = fst (Number_toString w n) # snd (Number_toString w n)"

definition andThen :: "exn + 'a \<Rightarrow> ('a \<Rightarrow> exn + 'b) \<Rightarrow> exn + 'b" where
  "andThen x f = (case x of Inl e \<Rightarrow> Inl e | Inr v \<Rightarrow> f v)"

fun mapExn :: "('a \<Rightarrow> exn + 'b) \<Rightarrow> 'a list \<Rightarrow> exn + 'b list" where
  "mapExn f [] = Inr []"
| "mapExn f (x # xs) =
     (case f x of
        Inl e \<Rightarrow> Inl e
      | Inr y \<Rightarrow> (case mapExn f xs of Inl e \<Rightarrow> Inl e | Inr ys \<Rightarrow> Inr (y # ys)))"

fun intercalate :: "string \<Rightarrow> string list \<Rightarrow> string" where
  "intercalate sep [] = []"
| "intercalate sep [s] = s"
| "intercalate sep (s # t # ts) = s @ sep @ intercalate sep (t # ts)"

fun isNullish :: "jsval \<Rightarrow> bool" where
  "isNullish JUndefined = True"
| "isNullish JNull = True"
| "isNullish v = False"

fun ToString :: "(jsnum \<Rightarrow> string) \<Rightarrow> jsval \<Rightarrow> exn + string"
  and ToStrings :: "(jsnum \<Rightarrow> string) \<Rightarrow> jsval list \<Rightarrow> exn + string list" where
  "ToString nf JUndefined = Inr ''undefined''"
| "ToString nf JNull = Inr ''null''"
| "ToString nf (JBool b) = Inr (if b then ''true'' else ''false'')"
| "ToString nf (JNum n) = Inr (nf n)"
| "ToString nf (JStr s) = Inr s"
| "ToString nf (JArr xs) =
     (case ToStrings nf xs of
        Inl e \<Rightarrow> Inl e
      | Inr ss \<Rightarrow> Inr (intercalate '','' ss))"
| "ToString nf (JObj kvs) =
     (case map_of kvs ''toString'' of
        Some f \<Rightarrow> Inl TypeError
      | None \<Rightarrow> Inr ''[object Object]'')"
| "ToStrings nf [] = Inr []"
| "ToStrings nf (x # xs) =
     (case (if isNullish x then Inr [] else ToString nf x) of
        Inl e \<Rightarrow> Inl e
      | Inr s \<Rightarrow> (case ToStrings nf xs of Inl e \<Rightarrow> Inl e | Inr ss \<Rightarrow> Inr (s # ss)))"

text \<open>\<^verbatim>\<open>x.join(sep)\<close>: only an array has the method.\<close>

definition js_join :: "(jsnum \<Rightarrow> string) \<Rightarrow> jsval \<Rightarrow> string \<Rightarrow> exn + string" where
  "js_join nf v sep =
     (case v of
        JArr xs \<Rightarrow>
          (case ToStrings nf xs of
             Inl e \<Rightarrow> Inl e
           | Inr ss \<Rightarrow> Inr (intercalate sep ss))
      | _ \<Rightarrow> Inl TypeError)"

text \<open>\<^verbatim>\<open>v.k\<close>: reading a property of null or undefined throws; of the other values
  only an object has the keys the handlers read. The parser leaves one entry per key.\<close>

definition getProp :: "jsval \<Rightarrow> string \<Rightarrow> exn + jsval" where
  "getProp v k =
     (if isNullish v then Inl TypeError
      else case v of
        JObj kvs \<Rightarrow> Inr (case map_of kvs k of None \<Rightarrow> JUndefined | Some x \<Rightarrow> x)
      | _ \<Rightarrow> Inr JUndefined)"

text \<open>White space of \<^verbatim>\<open>trim()\<close> and of the class \<^verbatim>\<open>\s\<close>, below U+0100.\<close>

definition is_ws :: "char \<Rightarrow> bool" where
  "is_ws c = ((of_char c :: nat) \<in> set [9, 10, 11, 12, 13, 32, 160])"

definition trim :: "string \<Rightarrow> string" where
  "trim s = rev (dropWhile is_ws (rev (dropWhile is_ws s)))"

section \<open>Lookups and setters of Mongoose\<close>

text \<open>
  \<^verbatim>\<open>Model.findById(id)\<close> with the id text of the URL: the document stored under it; when
  there is none, null for a text that Mongoose takes for an object id and a CastError for
  any other. A collection holds its documents under object ids, so that the lookup of a
  malformed id finds no document and throws.
\<close>

definition findById :: "world \<Rightarrow> (objectId \<rightharpoonup> 'a) \<Rightarrow> string \<Rightarrow> exn + 'a option" where
  "findById w coll i =
     (case coll i of
        Some d \<Rightarrow> Inr (Some d)
      | None \<Rightarrow> if validObjectId w i then Inr None else Inl CastError)"

text \<open>
  The setter of a \<^verbatim>\<open>String\<close> path (\<^verbatim>\<open>title\<close>, \<^verbatim>\<open>portionSize\<close>, \<^verbatim>\<open>difficulty\<close>,
  \<^verbatim>\<open>image\<close>): null and undefined stay, a string stays, a number and a boolean become
  their text (7 becomes "7"), an array is refused, an object is for the world to say.
\<close>

definition castString :: "world \<Rightarrow> jsval \<Rightarrow> exn + jsval" where
  "castString w v =
     (case v of
        JUndefined \<Rightarrow> Inr JUndefined
      | JNull \<Rightarrow> Inr JNull
      | JBool b \<Rightarrow> Inr (JStr (if b then ''true'' else ''false''))
      | JNum n \<Rightarrow> Inr (JStr (numberString w n))
      | JStr s \<Rightarrow> Inr (JStr s)
      | JArr xs \<Rightarrow> Inl CastError
      | JObj kvs \<Rightarrow>
          (case castObjectToString w kvs of
             None \<Rightarrow> Inl CastError
           | Some (c, cs) \<Rightarrow> Inr (JStr (c # cs))))"

text \<open>
  The setter of a \<^verbatim>\<open>[String]\<close> path (\<^verbatim>\<open>description\<close>, \<^verbatim>\<open>ingredients\<close>,
  \<^verbatim>\<open>instructions\<close>, \<^verbatim>\<open>category\<close>): the elements of an array go through the setter
  of \<^verbatim>\<open>String\<close> one by one, and a value that is not an array is taken as the array of
  that one value (5 becomes ["5"]).
\<close>

definition castStringArray :: "world \<Rightarrow> jsval \<Rightarrow> exn + jsval" where
  "castStringArray w v =
     (if isNullish v then Inr (arrayOfNullish w v)
      else case v of
        JArr xs \<Rightarrow>
          (case mapExn (castString w) xs of Inl e \<Rightarrow> Inl e | Inr ys \<Rightarrow> Inr (JArr ys))
      | _ \<Rightarrow> (case castString w v of Inl e \<Rightarrow> Inl e | Inr y \<Rightarrow> Inr (JArr [y])))"


section \<open>Saving a recipe to the favourites\<close>

text \<open>
  \<^verbatim>\<open>
  const recipe = await Recipe.findById(recipeId);
  if (!recipe) return res.status(404).json({ error: "Recipe not found" });
  const user = await User.findById(userId);
  if (!user.savedRecipes) user.savedRecipes = [];
  if (!user.savedRecipes.includes(recipeId)) {
    user.savedRecipes.push(recipeId);
    await user.save();
  }
  if (!recipe.savedBy.includes(userId)) {
    recipe.savedBy.push(userId);
    await recipe.save();
  }
  res.json({ message: "Recipe saved successfully", savedRecipes: user.savedRecipes });
  \<close>
  all inside \<^verbatim>\<open>try\<close>, whose \<^verbatim>\<open>catch\<close> answers 500. The recipe id is the text of
  the URL, the user id the object id that the authentication put on the request: looking
  the user up throws no CastError. A missing user makes \<^verbatim>\<open>user.savedRecipes\<close> throw.
\<close>

definition saved_list :: "user \<Rightarrow> objectId list" where
  "saved_list u = (case savedRecipes u of None \<Rightarrow> [] | Some l \<Rightarrow> l)"

definition save_failed :: "exn \<Rightarrow> response" where
  "save_failed e = \<lparr>status = 500, body = BMessageError ''Failed to save recipe'' e\<rparr>"

definition save_ok :: "user \<Rightarrow> response" where
  "save_ok u = \<lparr>status = 200, body = BMessageSaved ''Recipe saved successfully'' (saved_list u)\<rparr>"

text \<open>The second half of the handler, from the test on \<^verbatim>\<open>savedBy\<close> on, given the
  store and the user document the first half leaves.\<close>

definition saveRecipe_savedBy ::
  "world \<Rightarrow> store \<Rightarrow> objectId \<Rightarrow> objectId \<Rightarrow> recipe \<Rightarrow> user \<Rightarrow> response \<times> store" where
  "saveRecipe_savedBy w st recipeId userId r u =
     (if userId \<notin> set (savedBy r) then
        (let r' = r\<lparr>savedBy := savedBy r @ [userId]\<rparr> in
         case recipe_save w recipeId r' of
           Some e \<Rightarrow> (save_failed e, st)
         | None \<Rightarrow> (save_ok u, st\<lparr>recipes := (recipes st)(recipeId \<mapsto> r')\<rparr>))
      else (save_ok u, st))"

definition saveRecipe :: "world \<Rightarrow> store \<Rightarrow> objectId \<Rightarrow> objectId \<Rightarrow> response \<times> store" where
  "saveRecipe w st recipeId userId =
     (case findById w (recipes st) recipeId of
        Inl e \<Rightarrow> (save_failed e, st)
      | Inr None \<Rightarrow> (\<lparr>status = 404, body = BError ''Recipe not found''\<rparr>, st)
      | Inr (Some r) \<Rightarrow>
          (case users st userId of
             None \<Rightarrow> (save_failed TypeError, st)
           | Some u0 \<Rightarrow>
               (let u = u0\<lparr>savedRecipes := Some (saved_list u0)\<rparr> in
                if recipeId \<notin> set (saved_list u) then
                  (let u' = u\<lparr>savedRecipes := Some (saved_list u @ [recipeId])\<rparr> in
                   case user_save w userId u' of
                     Some e \<Rightarrow> (save_failed e, st)
                   | None \<Rightarrow>
                       saveRecipe_savedBy w (st\<lparr>users := (users st)(userId \<mapsto> u')\<rparr>)
                         recipeId userId r u')
                else saveRecipe_savedBy w st recipeId userId r u)))"

text \<open>The two sides of the relation, read from the store.\<close>

definition userHas :: "store \<Rightarrow> objectId \<Rightarrow> objectId \<Rightarrow> bool" where
  "userHas st userId recipeId =
     (case users st userId of None \<Rightarrow> False | Some u \<Rightarrow> recipeId \<in> set (saved_list u))"

definition recipeHas :: "store \<Rightarrow> objectId \<Rightarrow> objectId \<Rightarrow> bool" where
  "recipeHas st recipeId userId =
     (case recipes st recipeId of None \<Rightarrow> False | Some r \<Rightarrow> userId \<in> set (savedBy r))"

definition userCount :: "store \<Rightarrow> objectId \<Rightarrow> objectId \<Rightarrow> nat" where
  "userCount st userId recipeId =
     (case users st userId of None \<Rightarrow> 0 | Some u \<Rightarrow> count_list (saved_list u) recipeId)"

definition recipeCount :: "store \<Rightarrow> objectId \<Rightarrow> objectId \<Rightarrow> nat" where
  "recipeCount st recipeId userId =
     (case recipes st recipeId of None \<Rightarrow> 0 | Some r \<Rightarrow> count_list (savedBy r) userId)"

text \<open>Both lists free of duplicates, in every document: the lists as the sets the data
  model takes them for.\<close>

definition setlike :: "store \<Rightarrow> bool" where
  "setlike st =
     ((\<forall>i u. users st i = Some u \<longrightarrow> distinct (saved_list u))
      \<and> (\<forall>i r. recipes st i = Some r \<longrightarrow> distinct (savedBy r)))"

section \<open>Updating a recipe\<close>

text \<open>The request body after \<^verbatim>\<open>express.json()\<close>: an object, read by key; a key that is
  not there reads as undefined.\<close>

type_synonym payload = "string \<rightharpoonup> jsval"

definition field :: "payload \<Rightarrow> string \<Rightarrow> jsval" where
  "field b k = (case b k of None \<Rightarrow> JUndefined | Some v \<Rightarrow> v)"








section \<open>Creating a recipe with the AI service\<close>

text \<open>The prompt: the template literal of \<^verbatim>\<open>createRecipe\<close>, its four substitutions
  converted in order.\<close>

definition nl :: string where
  "nl = [CHR 0x0A]"

definition quoted :: "string \<Rightarrow> string" where
  "quoted s = [CHR 0x22] @ s @ [CHR 0x22]"

definition prompt_schema :: string where
  "prompt_schema =
     nl @ nl @
     ''      Format the response as **valid JSON** only, including nested nutritionalInfo object:''
     @ nl @
     ''      {'' @ nl @
     ''        '' @ quoted ''title'' @ '': '' @ quoted ''Recipe title'' @ '','' @ nl @
     ''        '' @ quoted ''description'' @ '': ['' @ quoted ''bullet point 1'' @ '', ''
       @ quoted ''bullet point 2'' @ ''],'' @ nl @
     ''        '' @ quoted ''ingredients'' @ '': [{ '' @ quoted ''item'' @ '': '' @ quoted ''x''
       @ '', '' @ quoted ''amount'' @ '': '' @ quoted ''y'' @ '', '' @ quoted ''unit'' @ '': ''
       @ quoted ''z'' @ '' }],'' @ nl @
     ''        '' @ quoted ''instructions'' @ '': ['' @ quoted ''step 1'' @ '', ''
       @ quoted ''step 2'' @ '', '' @ quoted ''step 3'' @ ''],'' @ nl @
     ''        '' @ quoted ''nutritionalInfo'' @ '': { '' @ quoted ''calories'' @ '': 0, ''
       @ quoted ''protein'' @ '': 0, '' @ quoted ''fat'' @ '': 0, '' @ quoted ''carbs''
       @ '': 0 }'' @ nl @
     ''      }'' @ nl @
     ''    ''"

definition createPrompt :: "world \<Rightarrow> payload \<Rightarrow> exn + string" where
  "createPrompt w b =
     andThen (ToString (numberString w) (field b ''portionSize'')) (\<lambda>portion.
     andThen (ToString (numberString w) (field b ''category'')) (\<lambda>cat.
     andThen (ToString (numberString w) (field b ''difficulty'')) (\<lambda>diff.
     andThen (js_join (numberString w) (field b ''ingredients'') '', '') (\<lambda>ings.
       Inr (nl @ ''      Generate a detailed recipe with the following details:'' @ nl @
            ''      - Portion size: '' @ portion @ nl @
            ''      - Category: '' @ cat @ nl @
            ''      - Difficulty: '' @ diff @ nl @
            ''      - Ingredients: '' @ ings @ prompt_schema)))))"

text \<open>\<^verbatim>\<open>aiText.replace(/```json|```/g, "")\<close>: from left to right, the longer fence
  first.\<close>

function removeFences :: "string \<Rightarrow> string" where
  "removeFences [] = []"
| "removeFences (c # cs) =
     (if take 7 (c # cs) = ''```json'' then removeFences (drop 7 (c # cs))
      else if take 3 (c # cs) = ''```'' then removeFences (drop 3 (c # cs))
      else c # removeFences cs)"
  by pat_completeness auto
termination
  by (relation "measure length") auto

text \<open>
  \<^verbatim>\<open>
  let parsedRecipe;
  try {
    const repaired = jsonrepair(cleanText);
    parsedRecipe = JSON.parse(repaired);
  } catch (err) { ... }
  \<close>
  with the calls it makes.
\<close>

definition parseAiText :: "world \<Rightarrow> string \<Rightarrow> (exn + jsval) \<times> event list" where
  "parseAiText w cleanText =
     (case jsonrepair w cleanText of
        Inl e \<Rightarrow> (Inl e, [Repair cleanText])
      | Inr repaired \<Rightarrow> (JSON_parse w repaired, [Repair cleanText, Parse repaired]))"

text \<open>The parse as the specification words it: strict parse first, the repair pass only
  when that fails, then one more parse.\<close>

definition parseAiText_spec :: "world \<Rightarrow> string \<Rightarrow> (exn + jsval) \<times> event list" where
  "parseAiText_spec w cleanText =
     (case JSON_parse w cleanText of
        Inr v \<Rightarrow> (Inr v, [Parse cleanText])
      | Inl e \<Rightarrow>
          (case jsonrepair w cleanText of
             Inl e' \<Rightarrow> (Inl e', [Parse cleanText, Repair cleanText])
           | Inr repaired \<Rightarrow>
               (JSON_parse w repaired, [Parse cleanText, Repair cleanText, Parse repaired])))"

text \<open>
  \<^verbatim>\<open>
  function safeJsonParse(str) {
    try { return JSON.parse(str); }
    catch {
      const repaired = str.replace(/,\s*}/g, "}").replace(/,\s*]/g, "]");
      return JSON.parse(repaired);
    }
  }
  \<close>
  No handler calls it. \<open>dropCommaBefore cl\<close> is \<^verbatim>\<open>replace(/,\s*cl/g, "cl")\<close>.
\<close>

function dropCommaBefore :: "char \<Rightarrow> string \<Rightarrow> string" where
  "dropCommaBefore cl [] = []"
| "dropCommaBefore cl (c # cs) =
     (if c = CHR '','' \<and> take 1 (dropWhile is_ws cs) = [cl]
      then cl # dropCommaBefore cl (drop 1 (dropWhile is_ws cs))
      else c # dropCommaBefore cl cs)"
  by pat_completeness auto
termination
  by (relation "measure (\<lambda>(cl, s). length s)")
     (auto intro: le_imp_less_Suc order_trans [OF diff_le_self length_dropWhile_le])

definition safeJsonParse :: "world \<Rightarrow> string \<Rightarrow> (exn + jsval) \<times> event list" where
  "safeJsonParse w str =
     (case JSON_parse w str of
        Inr v \<Rightarrow> (Inr v, [Parse str])
      | Inl e \<Rightarrow>
          (let repaired = dropCommaBefore CHR '']'' (dropCommaBefore CHR ''}'' str)
           in (JSON_parse w repaired, [Parse str, Parse repaired])))"

text \<open>
  \<^verbatim>\<open>
  const formattedIngredients = parsedRecipe.ingredients.map((i) =>
    typeof i === "string" ? i : `${i.amount || ""} ${i.unit || ""} ${i.item}`);
  \<close>
\<close>

definition orEmpty :: "jsval \<Rightarrow> jsval" where
  "orEmpty v = (if truthy v then v else JStr [])"

definition formatIngredient :: "world \<Rightarrow> jsval \<Rightarrow> exn + jsval" where
  "formatIngredient w i =
     (case i of
        JStr s \<Rightarrow> Inr (JStr s)
      | _ \<Rightarrow>
          andThen (getProp i ''amount'') (\<lambda>amount.
          andThen (ToString (numberString w) (orEmpty amount)) (\<lambda>a.
          andThen (getProp i ''unit'') (\<lambda>unit.
          andThen (ToString (numberString w) (orEmpty unit)) (\<lambda>u.
          andThen (getProp i ''item'') (\<lambda>item.
          andThen (ToString (numberString w) item) (\<lambda>it.
            Inr (JStr (a @ '' '' @ u @ '' '' @ it)))))))))"

definition formatIngredients :: "world \<Rightarrow> jsval \<Rightarrow> exn + jsval" where
  "formatIngredients w parsedRecipe =
     andThen (getProp parsedRecipe ''ingredients'') (\<lambda>ings.
       case ings of
         JArr xs \<Rightarrow> andThen (mapExn (formatIngredient w) xs) (\<lambda>ys. Inr (JArr ys))
       | _ \<Rightarrow> Inl TypeError)"

text \<open>
  \<^verbatim>\<open>
  const parseNutrition = (value) => {
    if (!value) return 0;
    const num = parseFloat(value.toString().replace(/[^\d.]/g, ""));
    return isNaN(num) ? 0 : parseFloat(num.toFixed(2));
  };
  \<close>
  \<^verbatim>\<open>parseFloat\<close> and \<^verbatim>\<open>toFixed(2)\<close> are the runtime's, taken from the world.
\<close>

definition is_digit_or_dot :: "char \<Rightarrow> bool" where
  "is_digit_or_dot c =
     ((48 \<le> (of_char c :: nat) \<and> (of_char c :: nat) \<le> 57) \<or> c = CHR ''.'')"

definition parseNutrition :: "world \<Rightarrow> jsval \<Rightarrow> exn + jsnum" where
  "parseNutrition w v =
     (if \<not> truthy v then Inr (Fin 0)
      else andThen (ToString (numberString w) v) (\<lambda>s.
        let num = parseFloat w (filter is_digit_or_dot s)
        in Inr (if num = NaN then Fin 0 else parseFloat w (toFixed2 w num))))"

text \<open>\<^verbatim>\<open>parsedRecipe.nutritionalInfo?.k\<close>\<close>

definition nutritionField :: "jsval \<Rightarrow> string \<Rightarrow> exn + jsval" where
  "nutritionField parsedRecipe k =
     andThen (getProp parsedRecipe ''nutritionalInfo'') (\<lambda>info.
       if isNullish info then Inr JUndefined else getProp info k)"

text \<open>The object the handler passes to \<^verbatim>\<open>new Recipe({...})\<close>, with the defaults of
  the schema for the paths it leaves out.\<close>

definition default_image :: string where
  "default_image =
     ''https://res.cloudinary.com/duxeqhtxe/image/upload/v1756270305/1cee65777195641ae9c270cd3970346b_ehwhce.jpg''"

definition buildRecipe :: "world \<Rightarrow> payload \<Rightarrow> jsval \<Rightarrow> exn + recipe" where
  "buildRecipe w b parsedRecipe =
     andThen (formatIngredients w parsedRecipe) (\<lambda>formattedIngredients.
     andThen (getProp parsedRecipe ''title'') (\<lambda>t.
     andThen (getProp parsedRecipe ''description'') (\<lambda>d.
     andThen (getProp parsedRecipe ''instructions'') (\<lambda>ins.
     andThen (normalizeCategory (field b ''category'')) (\<lambda>cat.
     andThen (andThen (nutritionField parsedRecipe ''calories'') (parseNutrition w)) (\<lambda>cal.
     andThen (andThen (nutritionField parsedRecipe ''protein'') (parseNutrition w)) (\<lambda>pro.
     andThen (andThen (nutritionField parsedRecipe ''fat'') (parseNutrition w)) (\<lambda>fat.
     andThen (andThen (nutritionField parsedRecipe ''carbs'') (parseNutrition w)) (\<lambda>carbs.
       Inr \<lparr>title = t, description = d, ingredients = formattedIngredients,
            instructions = ins, portionSize = field b ''portionSize'',
            category = JStr cat, difficulty = field b ''difficulty'',
            image = JStr default_image, ratings = JArr [], averageRating = JNum (Fin 0),
            savedBy = [],
            nutritionalInfo = JObj [(''calories'', JNum cal), (''protein'', JNum pro),
                                    (''fat'', JNum fat), (''carbs'', JNum carbs)],
            tags = JArr [], cuisine = JUndefined\<rparr>)))))))))"

text \<open>
  \<^verbatim>\<open>new Recipe({...})\<close>: every value goes through the setter of its path, so that the
  category, a single tag, becomes the array of that tag. The four nutrition values are
  numbers and stay as they are. A refused value marks the document invalid, and the save
  that follows throws.
\<close>

definition newRecipe :: "world \<Rightarrow> recipe \<Rightarrow> exn + recipe" where
  "newRecipe w raw =
     andThen (castString w (title raw)) (\<lambda>title'.
     andThen (castStringArray w (description raw)) (\<lambda>description'.
     andThen (castStringArray w (ingredients raw)) (\<lambda>ingredients'.
     andThen (castStringArray w (instructions raw)) (\<lambda>instructions'.
     andThen (castString w (portionSize raw)) (\<lambda>portionSize'.
     andThen (castStringArray w (category raw)) (\<lambda>category'.
     andThen (castString w (difficulty raw)) (\<lambda>difficulty'.
       Inr (raw\<lparr>title := title', description := description',
                 ingredients := ingredients', instructions := instructions',
                 portionSize := portionSize', category := category',
                 difficulty := difficulty'\<rparr>))))))))"

text \<open>\<^verbatim>\<open>if (!apiKey)\<close>: the variable is not set, or set to the empty string.\<close>

definition keyMissing :: "world \<Rightarrow> bool" where
  "keyMissing w = (case GOOGLE_API_KEY w of None \<Rightarrow> True | Some k \<Rightarrow> k = [])"

definition notConfigured :: response where
  "notConfigured = \<lparr>status = 500, body = BError ''GOOGLE_API_KEY not found''\<rparr>"

definition create_failed :: "exn \<Rightarrow> response" where
  "create_failed e = \<lparr>status = 500, body = BErrorDetails ''Failed to generate recipe'' e\<rparr>"

text \<open>The handler: its response, the store it leaves, and the calls it made.\<close>

definition createRecipe :: "world \<Rightarrow> store \<Rightarrow> payload \<Rightarrow> response \<times> store \<times> event list" where
  "createRecipe w st b =
     (if keyMissing w then (notConfigured, st, [])
      else case createPrompt w b of
        Inl e \<Rightarrow> (create_failed e, st, [])
      | Inr prompt \<Rightarrow>
          (case generateContent w ''gemini-1.5-flash'' prompt of
             Inl e \<Rightarrow> (create_failed e, st, [AICall ''gemini-1.5-flash'' prompt])
           | Inr result \<Rightarrow>
               (let aiText = response_text result;
                    cleanText = trim (removeFences aiText);
                    calls = AICall ''gemini-1.5-flash'' prompt # snd (parseAiText w cleanText)
                in case fst (parseAiText w cleanText) of
                     Inl err \<Rightarrow>
                       (\<lparr>status = 500, body = BErrorRaw ''AI response JSON invalid'' aiText\<rparr>,
                        st, calls)
                   | Inr parsedRecipe \<Rightarrow>
                       (case buildRecipe w b parsedRecipe of
                          Inl e \<Rightarrow> (create_failed e, st, calls)
                        | Inr raw \<Rightarrow>
                            (case newRecipe w raw of
                               Inl e \<Rightarrow> (create_failed ValidationError, st, calls)
                             | Inr r \<Rightarrow>
                                 (case recipe_save w (new_id w) r of
                                    Some e \<Rightarrow> (create_failed e, st, calls)
                                  | None \<Rightarrow>
                                      (\<lparr>status = 201,
                                        body = BMessageRecipe
                                                 ''Recipe created successfully'' r\<rparr>,
                                       st\<lparr>recipes := (recipes st)(new_id w \<mapsto> r)\<rparr>,
                                       calls)))))))"

fun isAICall :: "event \<Rightarrow> bool" where
  "isAICall (AICall m p) = True"
| "isAICall ev = False"

section \<open>Generating an image for a recipe\<close>

text \<open>
  \<^verbatim>\<open>
  let imageBase64 = null;
  for (const candidate of response.candidates) {
    for (const part of candidate.content.parts) {
      if (part.inlineData) {
        imageBase64 = part.inlineData.data;
      }
    }
  }
  \<close>
  The two loops, with \<^verbatim>\<open>imageBase64\<close> as the accumulator (\<open>None\<close> for null). A
  candidate without content or parts makes the outer loop throw.
\<close>

fun scanParts :: "string option \<Rightarrow> part list \<Rightarrow> string option" where
  "scanParts imageBase64 [] = imageBase64"
| "scanParts imageBase64 (p # ps) =
     scanParts (case inlineData p of Some d \<Rightarrow> Some (data d) | None \<Rightarrow> imageBase64) ps"

fun scanCandidates :: "string option \<Rightarrow> candidate list \<Rightarrow> exn + string option" where
  "scanCandidates imageBase64 [] = Inr imageBase64"
| "scanCandidates imageBase64 (None # cs) = Inl TypeError"
| "scanCandidates imageBase64 (Some ps # cs) = scanCandidates (scanParts imageBase64 ps) cs"



definition image_failed :: "exn \<Rightarrow> response" where
  "image_failed e =
     \<lparr>status = 500, body = BMessageError ''Failed to generate recipe image'' e\<rparr>"

definition imagePrompt :: "string \<Rightarrow> string" where
  "imagePrompt t =
     ''Create a professional, restaurant-quality food photo of the dish: '' @ t @ ''.'' @ nl @
     ''    Style: realistic, appetizing, high resolution, well-lit.''"

text \<open>\<^verbatim>\<open>const base64Url = `data:image/png;base64,${imageBase64}`\<close>, a string, which
  the setter of \<^verbatim>\<open>image\<close> leaves as it is.\<close>

definition base64Url :: "string \<Rightarrow> string" where
  "base64Url imageBase64 = ''data:image/png;base64,'' @ imageBase64"

definition generateRecipeImage ::
  "world \<Rightarrow> store \<Rightarrow> objectId \<Rightarrow> response \<times> store \<times> event list" where
  "generateRecipeImage w st rid =
     (if keyMissing w then (notConfigured, st, [])
      else case findById w (recipes st) rid of
        Inl e \<Rightarrow> (image_failed e, st, [])
      | Inr None \<Rightarrow> (\<lparr>status = 404, body = BMessage ''Recipe not found''\<rparr>, st, [])
      | Inr (Some r) \<Rightarrow>
          (case ToString (numberString w) (title r) of
             Inl e \<Rightarrow> (image_failed e, st, [])
           | Inr t \<Rightarrow>
               (let model = ''gemini-2.5-flash-image-preview'';
                    calls = [AICall model (imagePrompt t)]
                in case generateContent w model (imagePrompt t) of
                     Inl e \<Rightarrow> (image_failed e, st, calls)
                   | Inr response \<Rightarrow>
                       (case candidates response of
                          None \<Rightarrow> (image_failed TypeError, st, calls)
                        | Some cs \<Rightarrow>
                            (case scanCandidates None cs of
                               Inl e \<Rightarrow> (image_failed e, st, calls)
                             | Inr None \<Rightarrow>
                                 (\<lparr>status = 500, body = BMessage ''No image returned by AI''\<rparr>,
                                  st, calls)
                             | Inr (Some imageBase64) \<Rightarrow>
                                 if imageBase64 = [] then
                                   (\<lparr>status = 500, body = BMessage ''No image returned by AI''\<rparr>,
                                    st, calls)
                                 else
                                   (let r' = r\<lparr>image := JStr (base64Url imageBase64)\<rparr>
                                    in case recipe_save w rid r' of
                                         Some e \<Rightarrow> (image_failed e, st, calls)
                                       | None \<Rightarrow>
                                           (\<lparr>status = 200,
                                             body = BMessageRecipe
                                                      ''Image generated successfully'' r'\<rparr>,
                                            st\<lparr>recipes := (recipes st)(rid \<mapsto> r')\<rparr>,
                                            calls)))))))"

fun isRepair :: "event \<Rightarrow> bool" where
  "isRepair (Repair s) = True"
| "isRepair ev = False"

fun isParse :: "event \<Rightarrow> bool" where
  "isParse (Parse s) = True"
| "isParse ev = False"

section \<open>A concrete store and world\<close>

text \<open>
  One recipe, one user who has saved nothing yet, and a world in which the key is set and
  every write succeeds. The AI service answers a fenced \<^verbatim>\<open>{}\<close> and, for an image
  request, two inline payloads. \<^verbatim>\<open>jsonrepair\<close> refuses the empty text and returns valid
  JSON as it is; \<^verbatim>\<open>JSON.parse\<close> is given on the text \<^verbatim>\<open>{}\<close>. The examples hold no
  number but 0, 5 and 7, which is all the number routines are given on. An object id is a
  text of 24 hexadecimal digits; the setter of a \<^verbatim>\<open>String\<close> path takes of an object its
  \<^verbatim>\<open>_id\<close>, when that is a string; the nested setter is given on the empty object.
\<close>

definition is_hex :: "char \<Rightarrow> bool" where
  "is_hex c =
     ((48 \<le> (of_char c :: nat) \<and> (of_char c :: nat) \<le> 57)
      \<or> (65 \<le> (of_char c :: nat) \<and> (of_char c :: nat) \<le> 70)
      \<or> (97 \<le> (of_char c :: nat) \<and> (of_char c :: nat) \<le> 102))"


definition demo_rid :: objectId where
  "demo_rid = ''650000000000000000000001''"

definition demo_uid :: objectId where
  "demo_uid = ''650000000000000000000002''"

definition demo_recipe :: recipe where
  "demo_recipe =
     \<lparr>title = JStr ''Rice Bowl'', description = JArr [JStr ''Simple''],
      ingredients = JArr [JStr ''2 cups rice''], instructions = JArr [JStr ''Cook rice''],
      portionSize = JStr ''4'', category = JArr [JStr ''vegetarian''],
      difficulty = JStr ''easy'', image = JStr default_image, ratings = JArr [],
      averageRating = JNum (Fin 0), savedBy = [],
      nutritionalInfo = JObj [(''calories'', JNum (Fin 0)), (''protein'', JNum (Fin 0)),
                              (''fat'', JNum (Fin 0)), (''carbs'', JNum (Fin 0))],
      tags = JArr [], cuisine = JUndefined\<rparr>"

definition demo_store :: store where
  "demo_store =
     \<lparr>recipes = [demo_rid \<mapsto> demo_recipe],
      users = [demo_uid \<mapsto> \<lparr>savedRecipes = Some []\<rparr>]\<rparr>"

definition demo_candidates :: "candidate list" where
  "demo_candidates =
     [Some [\<lparr>inlineData = Some \<lparr>mimeType = ''image/png'', data = ''AAA''\<rparr>\<rparr>,
            \<lparr>inlineData = Some \<lparr>mimeType = ''image/png'', data = ''BBB''\<rparr>\<rparr>]]"

definition demo_answer :: ai_response where
  "demo_answer =
     \<lparr>response_text = ''```json'' @ nl @ ''{}'' @ nl @ ''```'',
      candidates = Some demo_candidates\<rparr>"

definition demo_world :: world where
  "demo_world =
     \<lparr>GOOGLE_API_KEY = Some ''test-key'',
      generateContent = (\<lambda>model prompt. Inr demo_answer),
      jsonrepair = (\<lambda>s. if s = [] then Inl (Thrown ''Unexpected end of json string'')
                          else Inr s),
      JSON_parse = (\<lambda>s. if s = ''{}'' then Inr (JObj []) else Inl (Thrown ''SyntaxError'')),
      Number_toString =
        (\<lambda>n. if n = Fin 7 then (CHR ''7'', []) else if n = Fin 5 then (CHR ''5'', [])
             else (CHR ''0'', [])),
      parseFloat = (\<lambda>s. if s = ''0'' \<or> s = ''0.00'' then Fin 0 else NaN),
      toFixed2 = (\<lambda>n. ''0.00''),
      validObjectId = (\<lambda>s. length s = 24 \<and> list_all is_hex s),
      castObjectToString =
        (\<lambda>kvs. case map_of kvs ''_id'' of Some (JStr (c # cs)) \<Rightarrow> Some (c, cs) | _ \<Rightarrow> None),
      arrayOfNullish = (\<lambda>v. v),
      castNutrition = (\<lambda>v. if v = JObj [] then Some [] else None),
      user_save = (\<lambda>i u. None),
      recipe_save = (\<lambda>i r. None),
      new_id = ''650000000000000000000003''\<rparr>"

text \<open>The same world with the key unset, with a recipe write that fails, with an AI
  answer that is nothing but a fence, with an AI answer that holds text only, with an
  AI answer without candidates, with an AI answer whose last candidate has no content, and
  with an AI service that cannot be reached.\<close>

definition demo_world_nokey :: world where
  "demo_world_nokey = demo_world\<lparr>GOOGLE_API_KEY := None\<rparr>"

definition demo_world_recipe_fails :: world where
  "demo_world_recipe_fails =
     demo_world\<lparr>recipe_save := (\<lambda>i r. Some (Thrown ''connection lost''))\<rparr>"

definition demo_world_badjson :: world where
  "demo_world_badjson =
     demo_world\<lparr>generateContent :=
       (\<lambda>model prompt. Inr (demo_answer\<lparr>response_text := ''```''\<rparr>))\<rparr>"

definition demo_world_noimage :: world where
  "demo_world_noimage =
     demo_world\<lparr>generateContent :=
       (\<lambda>model prompt.
          Inr (demo_answer\<lparr>candidates := Some [Some [\<lparr>inlineData = None\<rparr>]]\<rparr>))\<rparr>"

definition demo_world_nocandidates :: world where
  "demo_world_nocandidates =
     demo_world\<lparr>generateContent :=
       (\<lambda>model prompt. Inr (demo_answer\<lparr>candidates := None\<rparr>))\<rparr>"

definition demo_world_nocontent :: world where
  "demo_world_nocontent =
     demo_world\<lparr>generateContent :=
       (\<lambda>model prompt.
          Inr (demo_answer\<lparr>candidates := Some (demo_candidates @ [None])\<rparr>))\<rparr>"

definition demo_world_unreachable :: world where
  "demo_world_unreachable =
     demo_world\<lparr>generateContent := (\<lambda>model prompt. Inl (Thrown ''fetch failed''))\<rparr>"

text \<open>The store after the save of the one recipe by the one user, and the store a save
  leaves when the user is written and the recipe write fails.\<close>

definition demo_store_saved :: store where
  "demo_store_saved =
     \<lparr>recipes = [demo_rid \<mapsto> demo_recipe\<lparr>savedBy := [demo_uid]\<rparr>],
      users = [demo_uid \<mapsto> \<lparr>savedRecipes = Some [demo_rid]\<rparr>]\<rparr>"

definition demo_store_half :: store where
  "demo_store_half =
     \<lparr>recipes = [demo_rid \<mapsto> demo_recipe],
      users = [demo_uid \<mapsto> \<lparr>savedRecipes = Some [demo_rid]\<rparr>]\<rparr>"





definition demo_create_body :: payload where
  "demo_create_body =
     [''ingredients'' \<mapsto> JArr [JStr ''2 cups rice'', JStr ''1 tsp salt''],
      ''portionSize'' \<mapsto> JStr ''4'', ''category'' \<mapsto> JStr ''veg'',
      ''difficulty'' \<mapsto> JStr ''easy'']"





section \<open>Properties of category normalisation\<close>

lemma normalizeCategory_refines:
  "normalizeCategory (JStr s) = Inr (normalizeCategory_spec s)"
  by (cases "s = []")
     (simp_all add: normalizeCategory_def normalizeCategory_spec_def category_table_def
        strip_non_az_def toLowerCase_def)

lemma normalizeCategory_spec_tag:
  "normalizeCategory_spec s \<in> set category_tags"
  by (simp add: normalizeCategory_spec_def category_table_def category_tags_def)

section \<open>Properties of saving\<close>

lemma saved_list_upd [simp]: "saved_list (u\<lparr>savedRecipes := Some l\<rparr>) = l"
  by (simp add: saved_list_def)

lemma savedBy_result:
  "saveRecipe_savedBy w st rid uid r u = (resp, st') \<Longrightarrow> status resp = 200 \<Longrightarrow>
   resp = save_ok u \<and>
   st' = (if uid \<in> set (savedBy r) then st
          else st\<lparr>recipes := (recipes st)(rid \<mapsto> r\<lparr>savedBy := savedBy r @ [uid]\<rparr>)\<rparr>)"
  unfolding saveRecipe_savedBy_def Let_def
  by (cases "recipe_save w rid (r\<lparr>savedBy := savedBy r @ [uid]\<rparr>)")
     (auto simp: save_failed_def save_ok_def split: if_splits)

text \<open>A call that answers 200 found both documents, and wrote exactly the missing side or
  sides.\<close>

lemma saveRecipe_result:
  assumes "saveRecipe w st rid uid = (resp, st')" "status resp = 200"
  shows "\<exists>r u. recipes st rid = Some r \<and> users st uid = Some u \<and>
    resp = save_ok (u\<lparr>savedRecipes :=
             Some (if rid \<in> set (saved_list u) then saved_list u else saved_list u @ [rid])\<rparr>) \<and>
    users st' = (if rid \<in> set (saved_list u) then users st
                 else (users st)(uid \<mapsto> u\<lparr>savedRecipes := Some (saved_list u @ [rid])\<rparr>)) \<and>
    recipes st' = (if uid \<in> set (savedBy r) then recipes st
                 else (recipes st)(rid \<mapsto> r\<lparr>savedBy := savedBy r @ [uid]\<rparr>))"
proof (cases "recipes st rid")
  case None
  with assms show ?thesis
    by (cases "validObjectId w rid") (auto simp: saveRecipe_def findById_def save_failed_def)
next
  case (Some r)
  note r = this
  show ?thesis
  proof (cases "users st uid")
    case None
    with r assms show ?thesis by (auto simp: saveRecipe_def findById_def save_failed_def)
  next
    case (Some u)
    note u = this
    show ?thesis
    proof (cases "rid \<in> set (saved_list u)")
      case True
      with assms r u
      have "saveRecipe_savedBy w st rid uid r (u\<lparr>savedRecipes := Some (saved_list u)\<rparr>)
            = (resp, st')"
        by (simp add: saveRecipe_def findById_def Let_def)
      from savedBy_result[OF this assms(2)] True r u
      show ?thesis by auto
    next
      case False
      let ?u' = "u\<lparr>savedRecipes := Some (saved_list u @ [rid])\<rparr>"
      show ?thesis
      proof (cases "user_save w uid ?u'")
        case None
        with False assms r u
        have "saveRecipe_savedBy w (st\<lparr>users := (users st)(uid \<mapsto> ?u')\<rparr>) rid uid r ?u'
              = (resp, st')"
          by (simp add: saveRecipe_def findById_def Let_def)
        from savedBy_result[OF this assms(2)] False r u
        show ?thesis by auto
      next
        case (Some e)
        with False assms r u show ?thesis
          by (auto simp: saveRecipe_def findById_def Let_def save_failed_def)
      qed
    qed
  qed
qed

lemma saveRecipe_pointwise:
  assumes "saveRecipe w st rid uid = (resp, st')" "status resp = 200"
  shows "\<exists>r u u'. recipes st rid = Some r \<and> users st uid = Some u \<and>
    users st' uid = Some u' \<and>
    saved_list u' = (if rid \<in> set (saved_list u) then saved_list u else saved_list u @ [rid]) \<and>
    recipes st' rid =
      Some (r\<lparr>savedBy := (if uid \<in> set (savedBy r) then savedBy r else savedBy r @ [uid])\<rparr>) \<and>
    resp = save_ok (u\<lparr>savedRecipes := Some (saved_list u')\<rparr>) \<and>
    (\<forall>x. x \<noteq> uid \<longrightarrow> users st' x = users st x) \<and>
    (\<forall>x. x \<noteq> rid \<longrightarrow> recipes st' x = recipes st x)"
proof -
  from saveRecipe_result[OF assms] obtain r0 u0 where
    h: "recipes st rid = Some r0" "users st uid = Some u0"
    and resp: "resp = save_ok (u0\<lparr>savedRecipes :=
             Some (if rid \<in> set (saved_list u0) then saved_list u0 else saved_list u0 @ [rid])\<rparr>)"
    and us: "users st' = (if rid \<in> set (saved_list u0) then users st
                 else (users st)(uid \<mapsto> u0\<lparr>savedRecipes := Some (saved_list u0 @ [rid])\<rparr>))"
    and rs: "recipes st' = (if uid \<in> set (savedBy r0) then recipes st
                 else (recipes st)(rid \<mapsto> r0\<lparr>savedBy := savedBy r0 @ [uid]\<rparr>))"
    by blast
  have 1: "\<exists>u'. users st' uid = Some u' \<and>
      saved_list u' = (if rid \<in> set (saved_list u0) then saved_list u0 else saved_list u0 @ [rid])"
    by (cases "rid \<in> set (saved_list u0)") (simp_all add: us h)
  have 2: "recipes st' rid =
      Some (r0\<lparr>savedBy := (if uid \<in> set (savedBy r0) then savedBy r0 else savedBy r0 @ [uid])\<rparr>)"
    by (cases "uid \<in> set (savedBy r0)") (simp_all add: rs h)
  have 3: "\<forall>x. x \<noteq> uid \<longrightarrow> users st' x = users st x"
    by (cases "rid \<in> set (saved_list u0)") (simp_all add: us)
  have 4: "\<forall>x. x \<noteq> rid \<longrightarrow> recipes st' x = recipes st x"
    by (cases "uid \<in> set (savedBy r0)") (simp_all add: rs)
  from 1 obtain u' where u': "users st' uid = Some u'"
      "saved_list u' = (if rid \<in> set (saved_list u0) then saved_list u0 else saved_list u0 @ [rid])"
    by blast
  have 5: "resp = save_ok (u0\<lparr>savedRecipes := Some (saved_list u')\<rparr>)"
    using resp u'(2) by simp
  from h u' 2 3 4 5 show ?thesis by blast
qed

lemma saveRecipe_ok_both:
  assumes "saveRecipe w st rid uid = (resp, st')" "status resp = 200"
  shows "userHas st' uid rid \<and> recipeHas st' rid uid"
proof -
  from saveRecipe_pointwise[OF assms] obtain r u u' where
    "users st' uid = Some u'"
    "saved_list u' = (if rid \<in> set (saved_list u) then saved_list u else saved_list u @ [rid])"
    "recipes st' rid =
      Some (r\<lparr>savedBy := (if uid \<in> set (savedBy r) then savedBy r else savedBy r @ [uid])\<rparr>)"
    by blast
  then show ?thesis by (simp add: userHas_def recipeHas_def)
qed

lemma saveRecipe_keeps:
  assumes "saveRecipe w st rid uid = (resp, st')" "status resp = 200"
     "userHas st u r \<longleftrightarrow> recipeHas st r u"
  shows "userHas st' u r \<longleftrightarrow> recipeHas st' r u"
proof (cases "u = uid \<and> r = rid")
  case True
  with saveRecipe_ok_both[OF assms(1,2)] show ?thesis by simp
next
  case False
  from saveRecipe_pointwise[OF assms(1,2)] obtain r0 u0 u' where
    h: "recipes st rid = Some r0" "users st uid = Some u0" "users st' uid = Some u'"
    "saved_list u' = (if rid \<in> set (saved_list u0) then saved_list u0 else saved_list u0 @ [rid])"
    "recipes st' rid =
      Some (r0\<lparr>savedBy := (if uid \<in> set (savedBy r0) then savedBy r0 else savedBy r0 @ [uid])\<rparr>)"
    "\<forall>x. x \<noteq> uid \<longrightarrow> users st' x = users st x"
    "\<forall>x. x \<noteq> rid \<longrightarrow> recipes st' x = recipes st x"
    by blast
  have "userHas st' u r = userHas st u r"
  proof (cases "u = uid")
    case True
    with False have "r \<noteq> rid" by simp
    with True h(2,3,4) show ?thesis by (simp add: userHas_def)
  next
    case False
    with h(6) show ?thesis by (simp add: userHas_def)
  qed
  moreover have "recipeHas st' r u = recipeHas st r u"
  proof (cases "r = rid")
    case True
    with False have "u \<noteq> uid" by simp
    with True h(1,5) show ?thesis by (simp add: recipeHas_def)
  next
    case False
    with h(7) show ?thesis by (simp add: recipeHas_def)
  qed
  ultimately show ?thesis using assms(3) by simp
qed

lemma count_list_pos: "x \<in> set xs \<Longrightarrow> Suc 0 \<le> count_list xs x"
  using count_list_0_iff[of xs x] by arith

lemma saveRecipe_counts:
  assumes "saveRecipe w st rid uid = (resp, st')" "status resp = 200"
  shows "userCount st' uid rid = max 1 (userCount st uid rid) \<and>
         recipeCount st' rid uid = max 1 (recipeCount st rid uid)"
proof -
  from saveRecipe_pointwise[OF assms(1,2)] obtain r0 u0 u' where
    h: "recipes st rid = Some r0" "users st uid = Some u0" "users st' uid = Some u'"
    "saved_list u' = (if rid \<in> set (saved_list u0) then saved_list u0 else saved_list u0 @ [rid])"
    "recipes st' rid =
      Some (r0\<lparr>savedBy := (if uid \<in> set (savedBy r0) then savedBy r0 else savedBy r0 @ [uid])\<rparr>)"
    by blast
  have "userCount st' uid rid = max 1 (userCount st uid rid)"
    using h(2,3,4)
    by (cases "rid \<in> set (saved_list u0)")
       (simp_all add: userCount_def count_list_0_iff count_list_pos max_def)
  moreover have "recipeCount st' rid uid = max 1 (recipeCount st rid uid)"
    using h(1,5)
    by (cases "uid \<in> set (savedBy r0)")
       (simp_all add: recipeCount_def count_list_0_iff count_list_pos max_def)
  ultimately show ?thesis by simp
qed

lemma saveRecipe_again:
  assumes "saveRecipe w st rid uid = (resp, st')" "status resp = 200"
  shows "saveRecipe w' st' rid uid = (resp, st')"
proof -
  from saveRecipe_result[OF assms] obtain r0 u0 where
    h: "recipes st rid = Some r0" "users st uid = Some u0"
    "resp = save_ok (u0\<lparr>savedRecipes :=
             Some (if rid \<in> set (saved_list u0) then saved_list u0 else saved_list u0 @ [rid])\<rparr>)"
    and us: "users st' = (if rid \<in> set (saved_list u0) then users st
                 else (users st)(uid \<mapsto> u0\<lparr>savedRecipes := Some (saved_list u0 @ [rid])\<rparr>))"
    and rs: "recipes st' = (if uid \<in> set (savedBy r0) then recipes st
                 else (recipes st)(rid \<mapsto> r0\<lparr>savedBy := savedBy r0 @ [uid]\<rparr>))"
    by blast
  define l where "l = (if rid \<in> set (saved_list u0) then saved_list u0 else saved_list u0 @ [rid])"
  define b where "b = (if uid \<in> set (savedBy r0) then savedBy r0 else savedBy r0 @ [uid])"
  have u': "users st' uid = Some (u0\<lparr>savedRecipes := Some l\<rparr>)
            \<or> (users st' uid = Some u0 \<and> saved_list u0 = l)"
    using us h(2) by (auto simp: l_def)
  have r': "recipes st' rid = Some (r0\<lparr>savedBy := b\<rparr>)"
    using rs h(1) by (auto simp: b_def)
  have inl: "rid \<in> set l" by (simp add: l_def)
  have inb: "uid \<in> set b" by (simp add: b_def)
  have resp: "resp = save_ok (u0\<lparr>savedRecipes := Some l\<rparr>)"
    using h(3) by (simp add: l_def)
  from u' show ?thesis
  proof
    assume "users st' uid = Some (u0\<lparr>savedRecipes := Some l\<rparr>)"
    with r' inl inb resp show ?thesis
      by (simp add: saveRecipe_def findById_def saveRecipe_savedBy_def Let_def)
  next
    assume "users st' uid = Some u0 \<and> saved_list u0 = l"
    with r' inl inb resp show ?thesis
      by (simp add: saveRecipe_def findById_def saveRecipe_savedBy_def Let_def)
  qed
qed

lemma saveRecipe_partial:
  assumes "recipes st rid = Some R" "users st uid = Some U"
    "rid \<notin> set (saved_list U)" "uid \<notin> set (savedBy R)"
    "user_save w uid (U\<lparr>savedRecipes := Some (saved_list U @ [rid])\<rparr>) = None"
    "recipe_save w rid (R\<lparr>savedBy := savedBy R @ [uid]\<rparr>) = Some e"
  shows "saveRecipe w st rid uid =
           (save_failed e,
            st\<lparr>users := (users st)(uid \<mapsto> U\<lparr>savedRecipes := Some (saved_list U @ [rid])\<rparr>)\<rparr>)"
  using assms by (simp add: saveRecipe_def findById_def saveRecipe_savedBy_def Let_def)

text \<open>Saving, whatever its outcome, keeps the lists free of duplicates.\<close>

lemma setlike_user:
  assumes "setlike st" "users st uid = Some u" "rid \<notin> set (saved_list u)"
  shows "setlike (st\<lparr>users := (users st)(uid \<mapsto> u\<lparr>savedRecipes := Some (saved_list u @ [rid])\<rparr>)\<rparr>)"
  using assms unfolding setlike_def by auto

lemma setlike_recipe:
  assumes "setlike st" "recipes st rid = Some r" "uid \<notin> set (savedBy r)"
  shows "setlike (st\<lparr>recipes := (recipes st)(rid \<mapsto> r\<lparr>savedBy := savedBy r @ [uid]\<rparr>)\<rparr>)"
  using assms unfolding setlike_def by auto

lemma savedBy_setlike:
  assumes "setlike st" "recipes st rid = Some r"
  shows "setlike (snd (saveRecipe_savedBy w st rid uid r u))"
proof (cases "uid \<in> set (savedBy r)")
  case True
  with assms show ?thesis by (simp add: saveRecipe_savedBy_def)
next
  case False
  show ?thesis
  proof (cases "recipe_save w rid (r\<lparr>savedBy := savedBy r @ [uid]\<rparr>)")
    case None
    with False setlike_recipe[OF assms False] show ?thesis
      by (simp add: saveRecipe_savedBy_def Let_def)
  next
    case (Some e)
    with False assms show ?thesis by (simp add: saveRecipe_savedBy_def Let_def)
  qed
qed

lemma saveRecipe_setlike:
  assumes "setlike st"
  shows "setlike (snd (saveRecipe w st rid uid))"
proof (cases "recipes st rid")
  case None
  with assms show ?thesis
    by (cases "validObjectId w rid") (simp_all add: saveRecipe_def findById_def)
next
  case (Some r)
  note r = this
  show ?thesis
  proof (cases "users st uid")
    case None
    with r assms show ?thesis by (simp add: saveRecipe_def findById_def)
  next
    case (Some u)
    note u = this
    show ?thesis
    proof (cases "rid \<in> set (saved_list u)")
      case True
      with r u savedBy_setlike[OF assms r, of w uid "u\<lparr>savedRecipes := Some (saved_list u)\<rparr>"]
      show ?thesis by (simp add: saveRecipe_def findById_def Let_def)
    next
      case False
      let ?u' = "u\<lparr>savedRecipes := Some (saved_list u @ [rid])\<rparr>"
      let ?st = "st\<lparr>users := (users st)(uid \<mapsto> ?u')\<rparr>"
      show ?thesis
      proof (cases "user_save w uid ?u'")
        case None
        have "recipes ?st rid = Some r" using r by simp
        from savedBy_setlike[OF setlike_user[OF assms u False] this, of w uid ?u'] None False r u
        show ?thesis by (simp add: saveRecipe_def findById_def Let_def)
      next
        case (Some e)
        with False r u assms show ?thesis by (simp add: saveRecipe_def findById_def Let_def)
      qed
    qed
  qed
qed

lemma distinct_count_le: "distinct xs \<Longrightarrow> count_list xs x \<le> 1"
  by (induction xs) (auto simp: count_list_0_iff)

lemma setlike_counts:
  assumes "setlike st" "recipes st rid = Some r" "users st uid = Some u"
  shows "count_list (saved_list u) rid \<le> 1" and "count_list (savedBy r) uid \<le> 1"
  using assms unfolding setlike_def by (blast intro: distinct_count_le)+

section \<open>Properties of lookups, setters and the update\<close>
































section \<open>Properties of creation and of image generation\<close>

lemma createRecipe_calls:
  assumes "\<not> keyMissing w" and "createPrompt w b = Inr prompt"
    and "generateContent w ''gemini-1.5-flash'' prompt = Inr result"
  shows "snd (snd (createRecipe w st b)) =
           AICall ''gemini-1.5-flash'' prompt
             # snd (parseAiText w (trim (removeFences (response_text result))))"
  using assms
  by (simp add: createRecipe_def Let_def split: sum.splits option.splits)

lemma parseAiText_calls:
  "snd (parseAiText w s) =
     Repair s # (case jsonrepair w s of Inl e \<Rightarrow> [] | Inr repaired \<Rightarrow> [Parse repaired])"
  by (cases "jsonrepair w s") (simp_all add: parseAiText_def)







section \<open>The concrete store and world, evaluated\<close>

lemma demo_store_lookup:
  "recipes demo_store demo_rid = Some demo_recipe"
  "users demo_store demo_uid = Some \<lparr>savedRecipes = Some []\<rparr>"
  by (simp_all add: demo_store_def)





lemma demo_save:
  "saveRecipe demo_world demo_store demo_rid demo_uid =
     (\<lparr>status = 200, body = BMessageSaved ''Recipe saved successfully'' [demo_rid]\<rparr>,
      demo_store_saved)"
  by (simp add: saveRecipe_def findById_def saveRecipe_savedBy_def demo_store_def demo_world_def
      demo_recipe_def demo_rid_def demo_uid_def save_ok_def Let_def saved_list_def
      demo_store_saved_def)

lemma demo_save_fails:
  "saveRecipe demo_world_recipe_fails demo_store demo_rid demo_uid =
     (\<lparr>status = 500, body = BMessageError ''Failed to save recipe'' (Thrown ''connection lost'')\<rparr>,
      demo_store_half)"
  by (simp add: saveRecipe_def findById_def saveRecipe_savedBy_def demo_store_def demo_world_def
      demo_world_recipe_fails_def save_failed_def
      demo_recipe_def demo_rid_def demo_uid_def save_ok_def Let_def saved_list_def
      demo_store_half_def)






lemma demo_key: "\<not> keyMissing demo_world" "\<not> keyMissing demo_world_badjson"
  "\<not> keyMissing demo_world_recipe_fails" "\<not> keyMissing demo_world_noimage"
  "\<not> keyMissing demo_world_nocandidates" "\<not> keyMissing demo_world_nocontent"
  "\<not> keyMissing demo_world_unreachable"
  by (simp_all add: keyMissing_def demo_world_def demo_world_badjson_def
      demo_world_recipe_fails_def demo_world_noimage_def demo_world_nocandidates_def
      demo_world_nocontent_def demo_world_unreachable_def)


lemma demo_generate:
  "generateContent demo_world m p = Inr demo_answer"
  "generateContent demo_world_badjson m p = Inr (demo_answer\<lparr>response_text := ''```''\<rparr>)"
  "generateContent demo_world_recipe_fails m p = Inr demo_answer"
  "generateContent demo_world_noimage m p
     = Inr (demo_answer\<lparr>candidates := Some [Some [\<lparr>inlineData = None\<rparr>]]\<rparr>)"
  "generateContent demo_world_nocandidates m p = Inr (demo_answer\<lparr>candidates := None\<rparr>)"
  "generateContent demo_world_nocontent m p
     = Inr (demo_answer\<lparr>candidates := Some (demo_candidates @ [None])\<rparr>)"
  "generateContent demo_world_unreachable m p = Inl (Thrown ''fetch failed'')"
  by (simp_all add: demo_world_def demo_world_badjson_def demo_world_recipe_fails_def
      demo_world_noimage_def demo_world_nocandidates_def demo_world_nocontent_def
      demo_world_unreachable_def)


lemma demo_clean:
  "trim (removeFences (response_text demo_answer)) = ''{}''"
  "trim (removeFences ''```'') = []"
  by (simp_all add: demo_answer_def nl_def trim_def is_ws_def)

lemma demo_prompt:
  "createPrompt demo_world demo_create_body =
     Inr (nl @ ''      Generate a detailed recipe with the following details:'' @ nl @
          ''      - Portion size: 4'' @ nl @
          ''      - Category: veg'' @ nl @
          ''      - Difficulty: easy'' @ nl @
          ''      - Ingredients: 2 cups rice, 1 tsp salt'' @ prompt_schema)"
  "createPrompt demo_world_badjson demo_create_body =
     Inr (nl @ ''      Generate a detailed recipe with the following details:'' @ nl @
          ''      - Portion size: 4'' @ nl @
          ''      - Category: veg'' @ nl @
          ''      - Difficulty: easy'' @ nl @
          ''      - Ingredients: 2 cups rice, 1 tsp salt'' @ prompt_schema)"
  by (simp_all add: createPrompt_def demo_create_body_def field_def andThen_def js_join_def)



lemma demo_parse:
  "JSON_parse demo_world ''{}'' = Inr (JObj [])"
  "JSON_parse demo_world ''{,}'' = Inl (Thrown ''SyntaxError'')"
  "jsonrepair demo_world ''{}'' = Inr ''{}''"
  "jsonrepair demo_world_badjson [] = Inl (Thrown ''Unexpected end of json string'')"
  by (simp_all add: demo_world_def demo_world_badjson_def)

section \<open>The claims\<close>

text \<open>
  Claim C1. For every category string, \<^verbatim>\<open>normalizeCategory\<close> returns (it never throws)
  one of the five tags vegetarian, non-vegetarian, vegan, spicy, other, and the tag is the
  one the fixed table gives for the lower-cased input with everything outside a to z
  removed. "Non-Veg!" gives non-vegetarian, "VEGAN" gives vegan, "keto" gives other.
  Being a function of its argument, the result is deterministic.
\<close>

theorem normalizeCategory_table:
  "normalizeCategory (JStr s) = Inr (normalizeCategory_spec s)
   \<and> normalizeCategory_spec s \<in> set category_tags
   \<and> normalizeCategory (JStr ''Non-Veg!'') = Inr ''non-vegetarian''
   \<and> normalizeCategory (JStr ''VEGAN'') = Inr ''vegan''
   \<and> normalizeCategory (JStr ''keto'') = Inr ''other''"
proof -
  have "normalizeCategory (JStr ''Non-Veg!'') = Inr ''non-vegetarian''" by code_simp
  moreover have "normalizeCategory (JStr ''VEGAN'') = Inr ''vegan''" by code_simp
  moreover have "normalizeCategory (JStr ''keto'') = Inr ''other''" by code_simp
  ultimately show ?thesis
    using normalizeCategory_refines[of s] normalizeCategory_spec_tag[of s] by simp
qed

theorem normalizeCategory_table_witness:
  "normalizeCategory (JStr ''N.O.N  veg'') = Inr ''non-vegetarian''"
proof -
  have "normalizeCategory_spec ''N.O.N  veg'' = ''non-vegetarian''" by code_simp
  with normalizeCategory_table[of "''N.O.N  veg''"] show ?thesis by simp
qed

text \<open>
  Claim C3. Saving is idempotent. Let the user and the recipe exist, with the recipe at
  most once in the user's \<^verbatim>\<open>savedRecipes\<close> and the user at most once in the recipe's
  \<^verbatim>\<open>savedBy\<close> (the data model reads both as sets, and saving, whatever its outcome,
  keeps lists without duplicates so: \<open>saveRecipe_setlike\<close>). After a save that answers 200, a second save of the same pair, in whatever world, answers the
  same, leaves the store as it is, and both lists hold the other side exactly once.
\<close>

theorem saveRecipe_idempotent:
  assumes "recipes st rid = Some R" and "users st uid = Some U"
    and "count_list (saved_list U) rid \<le> 1" and "count_list (savedBy R) uid \<le> 1"
    and "saveRecipe w st rid uid = (resp1, st1)" and "status resp1 = 200"
    and "saveRecipe w' st1 rid uid = (resp2, st2)"
  shows "st2 = st1 \<and> resp2 = resp1 \<and> userCount st2 uid rid = 1 \<and> recipeCount st2 rid uid = 1"
proof -
  from saveRecipe_again[OF assms(5,6), of w'] assms(7)
  have same: "st2 = st1" "resp2 = resp1" by simp_all
  from assms(1-4) have "userCount st uid rid \<le> 1" "recipeCount st rid uid \<le> 1"
    by (simp_all add: userCount_def recipeCount_def)
  with saveRecipe_counts[OF assms(5,6)]
  have "userCount st1 uid rid = 1" "recipeCount st1 rid uid = 1"
    by (simp_all add: max_def)
  with same show ?thesis by simp
qed

theorem saveRecipe_idempotent_witness:
  "status (fst (saveRecipe demo_world demo_store demo_rid demo_uid)) = 200
   \<and> saveRecipe demo_world_recipe_fails demo_store_saved demo_rid demo_uid
       = saveRecipe demo_world demo_store demo_rid demo_uid
   \<and> userCount demo_store_saved demo_uid demo_rid = 1
   \<and> recipeCount demo_store_saved demo_rid demo_uid = 1"
proof -
  have c: "count_list (saved_list \<lparr>savedRecipes = Some []\<rparr>) demo_rid \<le> 1"
     "count_list (savedBy demo_recipe) demo_uid \<le> 1"
    by (simp_all add: saved_list_def demo_recipe_def)
  have ok: "status \<lparr>status = 200, body = BMessageSaved ''Recipe saved successfully'' [demo_rid]\<rparr> = 200"
    by simp
  obtain resp2 st2 where
    second: "saveRecipe demo_world_recipe_fails demo_store_saved demo_rid demo_uid = (resp2, st2)"
    by (cases "saveRecipe demo_world_recipe_fails demo_store_saved demo_rid demo_uid")
  from saveRecipe_idempotent[OF demo_store_lookup c demo_save ok second] second
  show ?thesis by (auto simp: demo_save)
qed

text \<open>
  Claim C4. The relation between \<^verbatim>\<open>savedRecipes\<close> and \<^verbatim>\<open>savedBy\<close>. After a save that
  answers 200 the recipe is in the user's list and the user in the recipe's list, and
  every pair of a user and a recipe on which the two sides agreed before still agrees.
  There is no transaction: when the user is written and the write of the recipe then
  fails, the answer is 500 and the store holds the recipe in the user's list without the
  user in the recipe's list.
\<close>

theorem saveRecipe_relation:
  "(saveRecipe w st rid uid = (resp, st') \<and> status resp = 200 \<longrightarrow>
      userHas st' uid rid \<and> recipeHas st' rid uid \<and>
      (\<forall>u r. (userHas st u r \<longleftrightarrow> recipeHas st r u) \<longrightarrow>
             (userHas st' u r \<longleftrightarrow> recipeHas st' r u)))
   \<and> (recipes st rid = Some R \<and> users st uid = Some U \<and>
      rid \<notin> set (saved_list U) \<and> uid \<notin> set (savedBy R) \<and>
      user_save w uid (U\<lparr>savedRecipes := Some (saved_list U @ [rid])\<rparr>) = None \<and>
      recipe_save w rid (R\<lparr>savedBy := savedBy R @ [uid]\<rparr>) = Some e \<longrightarrow>
        status (fst (saveRecipe w st rid uid)) = 500 \<and>
        userHas (snd (saveRecipe w st rid uid)) uid rid \<and>
        \<not> recipeHas (snd (saveRecipe w st rid uid)) rid uid)"
proof (intro conjI impI)
  assume a: "saveRecipe w st rid uid = (resp, st') \<and> status resp = 200"
  then have a1: "saveRecipe w st rid uid = (resp, st')" and a2: "status resp = 200"
    by simp_all
  from saveRecipe_ok_both[OF a1 a2]
  show "userHas st' uid rid" and "recipeHas st' rid uid" by simp_all
  show "\<forall>u r. (userHas st u r \<longleftrightarrow> recipeHas st r u) \<longrightarrow>
             (userHas st' u r \<longleftrightarrow> recipeHas st' r u)"
    using saveRecipe_keeps[OF a1 a2] by blast
next
  assume b: "recipes st rid = Some R \<and> users st uid = Some U \<and>
      rid \<notin> set (saved_list U) \<and> uid \<notin> set (savedBy R) \<and>
      user_save w uid (U\<lparr>savedRecipes := Some (saved_list U @ [rid])\<rparr>) = None \<and>
      recipe_save w rid (R\<lparr>savedBy := savedBy R @ [uid]\<rparr>) = Some e"
  then have eq: "saveRecipe w st rid uid =
           (save_failed e,
            st\<lparr>users := (users st)(uid \<mapsto> U\<lparr>savedRecipes := Some (saved_list U @ [rid])\<rparr>)\<rparr>)"
    using saveRecipe_partial[of st rid R uid U w e] by blast
  show "status (fst (saveRecipe w st rid uid)) = 500"
    by (simp add: eq save_failed_def)
  show "userHas (snd (saveRecipe w st rid uid)) uid rid"
    by (simp add: eq userHas_def)
  show "\<not> recipeHas (snd (saveRecipe w st rid uid)) rid uid"
    using b by (simp add: eq recipeHas_def)
qed

theorem saveRecipe_relation_witness:
  "status (fst (saveRecipe demo_world demo_store demo_rid demo_uid)) = 200
   \<and> userHas demo_store_saved demo_uid demo_rid \<and> recipeHas demo_store_saved demo_rid demo_uid
   \<and> (userHas demo_store demo_uid demo_rid \<longleftrightarrow> recipeHas demo_store demo_rid demo_uid)
   \<and> (userHas demo_store_saved demo_uid demo_rid
        \<longleftrightarrow> recipeHas demo_store_saved demo_rid demo_uid)
   \<and> status (fst (saveRecipe demo_world_recipe_fails demo_store demo_rid demo_uid)) = 500
   \<and> userHas demo_store_half demo_uid demo_rid \<and> \<not> recipeHas demo_store_half demo_rid demo_uid"
proof -
  have 1: "saveRecipe demo_world demo_store demo_rid demo_uid =
       (\<lparr>status = 200, body = BMessageSaved ''Recipe saved successfully'' [demo_rid]\<rparr>,
        demo_store_saved)
     \<and> status \<lparr>status = 200, body = BMessageSaved ''Recipe saved successfully'' [demo_rid]\<rparr> = 200"
    by (simp add: demo_save)
  have 2: "recipes demo_store demo_rid = Some demo_recipe \<and>
      users demo_store demo_uid = Some \<lparr>savedRecipes = Some []\<rparr> \<and>
      demo_rid \<notin> set (saved_list \<lparr>savedRecipes = Some []\<rparr>) \<and> demo_uid \<notin> set (savedBy demo_recipe) \<and>
      user_save demo_world_recipe_fails demo_uid
        (\<lparr>savedRecipes = Some []\<rparr>\<lparr>savedRecipes := Some (saved_list \<lparr>savedRecipes = Some []\<rparr> @ [demo_rid])\<rparr>) = None \<and>
      recipe_save demo_world_recipe_fails demo_rid (demo_recipe\<lparr>savedBy := savedBy demo_recipe @ [demo_uid]\<rparr>)
        = Some (Thrown ''connection lost'')"
    by (simp add: demo_store_lookup saved_list_def demo_recipe_def demo_world_recipe_fails_def demo_world_def)
  from saveRecipe_relation[of demo_world demo_store demo_rid demo_uid
      "\<lparr>status = 200, body = BMessageSaved ''Recipe saved successfully'' [demo_rid]\<rparr>"
      demo_store_saved demo_recipe "\<lparr>savedRecipes = Some []\<rparr>" "Thrown ''connection lost''"] 1
  have A: "userHas demo_store_saved demo_uid demo_rid \<and> recipeHas demo_store_saved demo_rid demo_uid"
    by blast
  from saveRecipe_relation[of demo_world_recipe_fails demo_store demo_rid demo_uid
      "\<lparr>status = 200, body = BMessageSaved ''Recipe saved successfully'' [demo_rid]\<rparr>"
      demo_store_saved demo_recipe "\<lparr>savedRecipes = Some []\<rparr>" "Thrown ''connection lost''"] 2
  have B: "status (fst (saveRecipe demo_world_recipe_fails demo_store demo_rid demo_uid)) = 500 \<and>
        userHas (snd (saveRecipe demo_world_recipe_fails demo_store demo_rid demo_uid)) demo_uid demo_rid \<and>
        \<not> recipeHas (snd (saveRecipe demo_world_recipe_fails demo_store demo_rid demo_uid)) demo_rid demo_uid"
    by blast
  have C: "userHas demo_store demo_uid demo_rid \<longleftrightarrow> recipeHas demo_store demo_rid demo_uid"
    by (simp add: userHas_def recipeHas_def demo_store_lookup saved_list_def demo_recipe_def)
  from saveRecipe_relation[of demo_world demo_store demo_rid demo_uid
      "\<lparr>status = 200, body = BMessageSaved ''Recipe saved successfully'' [demo_rid]\<rparr>"
      demo_store_saved demo_recipe "\<lparr>savedRecipes = Some []\<rparr>" "Thrown ''connection lost''"] 1 C
  have D: "userHas demo_store_saved demo_uid demo_rid
        \<longleftrightarrow> recipeHas demo_store_saved demo_rid demo_uid"
    by blast
  from A B C D show ?thesis by (simp add: demo_save demo_save_fails)
qed




text \<open>
  Claim C6. When \<^verbatim>\<open>GOOGLE_API_KEY\<close> is not set (or is the empty string), recipe
  creation and image generation both answer 500 with the error "GOOGLE_API_KEY not found",
  leave the store as it is, and make no call at all: the list of calls is empty.
\<close>

theorem credential_absent:
  assumes "GOOGLE_API_KEY w = None \<or> GOOGLE_API_KEY w = Some []"
  shows "createRecipe w st b =
           (\<lparr>status = 500, body = BError ''GOOGLE_API_KEY not found''\<rparr>, st, [])
       \<and> generateRecipeImage w st rid =
           (\<lparr>status = 500, body = BError ''GOOGLE_API_KEY not found''\<rparr>, st, [])"
proof -
  from assms have "keyMissing w" by (auto simp: keyMissing_def)
  then show ?thesis
    by (simp add: createRecipe_def generateRecipeImage_def notConfigured_def)
qed

theorem credential_absent_witness:
  "GOOGLE_API_KEY demo_world_nokey = None
   \<and> createRecipe demo_world_nokey demo_store demo_create_body =
        (\<lparr>status = 500, body = BError ''GOOGLE_API_KEY not found''\<rparr>, demo_store, [])
   \<and> generateRecipeImage demo_world_nokey demo_store demo_rid =
        (\<lparr>status = 500, body = BError ''GOOGLE_API_KEY not found''\<rparr>, demo_store, [])"
proof -
  have k: "GOOGLE_API_KEY demo_world_nokey = None"
    by (simp add: demo_world_nokey_def demo_world_def)
  then have "GOOGLE_API_KEY demo_world_nokey = None \<or> GOOGLE_API_KEY demo_world_nokey = Some []"
    by simp
  from credential_absent[OF this, of demo_store demo_create_body demo_rid] k
  show ?thesis by simp
qed




text \<open>
  Claim C8, as stated, fails on an answer that is valid JSON already: for the fenced text
  \<^verbatim>\<open>{}\<close>, which \<^verbatim>\<open>JSON.parse\<close> accepts, the wording of the specification makes the
  single call \<^verbatim>\<open>JSON.parse("{}")\<close>, while the handler calls \<^verbatim>\<open>jsonrepair("{}")\<close> first
  and parses what that returns.
\<close>

theorem create_strict_first_counterexample:
  "trim (removeFences (response_text demo_answer)) = ''{}''
   \<and> JSON_parse demo_world ''{}'' = Inr (JObj [])
   \<and> parseAiText_spec demo_world ''{}'' = (Inr (JObj []), [Parse ''{}''])
   \<and> parseAiText demo_world ''{}'' = (Inr (JObj []), [Repair ''{}'', Parse ''{}''])
   \<and> tl (snd (snd (createRecipe demo_world demo_store demo_create_body)))
       = [Repair ''{}'', Parse ''{}'']"
proof -
  have "tl (snd (snd (createRecipe demo_world demo_store demo_create_body)))
       = [Repair ''{}'', Parse ''{}'']"
    by (simp add: createRecipe_calls[OF demo_key(1) demo_prompt(1) demo_generate(1)]
        demo_clean parseAiText_calls demo_parse)
  then show ?thesis
    by (simp add: demo_clean demo_parse parseAiText_def parseAiText_spec_def)
qed

text \<open>
  Claim C8, amended. In recipe creation, once the AI service has answered, the first call
  after the AI call is the repair pass on the text with its fences stripped and trimmed,
  whether or not that text is valid JSON, and the repair pass runs exactly once. When
  the repair pass returns, its output is parsed exactly once and nothing else is parsed:
  the calls are the AI call, the repair and the parse of the repaired text, in this
  order. When the repair pass throws, nothing is parsed: the calls are the AI call and
  the repair. There is no strict parse before the repair and no retry. The helper
  \<^verbatim>\<open>safeJsonParse\<close>, which no handler calls, does parse strictly first, and on
  failure removes the commas before a closing brace or bracket and parses once more.
\<close>

theorem create_repairs_first:
  assumes "\<not> keyMissing w" and "createPrompt w b = Inr prompt"
    and "generateContent w ''gemini-1.5-flash'' prompt = Inr result"
  shows "take 2 (snd (snd (createRecipe w st b))) =
           [AICall ''gemini-1.5-flash'' prompt,
            Repair (trim (removeFences (response_text result)))]
       \<and> length (filter isRepair (snd (snd (createRecipe w st b)))) = 1
       \<and> length (filter isParse (snd (snd (createRecipe w st b)))) \<le> 1
       \<and> (\<forall>s. Parse s \<in> set (snd (snd (createRecipe w st b))) \<longrightarrow>
              jsonrepair w (trim (removeFences (response_text result))) = Inr s)
       \<and> (jsonrepair w (trim (removeFences (response_text result))) = Inr repaired \<longrightarrow>
            snd (snd (createRecipe w st b)) =
              [AICall ''gemini-1.5-flash'' prompt,
               Repair (trim (removeFences (response_text result))), Parse repaired]
            \<and> length (filter isParse (snd (snd (createRecipe w st b)))) = 1)
       \<and> (jsonrepair w (trim (removeFences (response_text result))) = Inl e' \<longrightarrow>
            snd (snd (createRecipe w st b)) =
              [AICall ''gemini-1.5-flash'' prompt,
               Repair (trim (removeFences (response_text result)))]
            \<and> filter isParse (snd (snd (createRecipe w st b))) = [])
       \<and> (JSON_parse w str = Inr v \<longrightarrow> safeJsonParse w str = (Inr v, [Parse str]))
       \<and> (JSON_parse w str = Inl e \<longrightarrow>
            safeJsonParse w str =
              (JSON_parse w (dropCommaBefore CHR '']'' (dropCommaBefore CHR ''}'' str)),
               [Parse str, Parse (dropCommaBefore CHR '']'' (dropCommaBefore CHR ''}'' str))]))"
proof -
  let ?clean = "trim (removeFences (response_text result))"
  have calls: "snd (snd (createRecipe w st b)) =
      AICall ''gemini-1.5-flash'' prompt # Repair ?clean
        # (case jsonrepair w ?clean of Inl e \<Rightarrow> [] | Inr repaired \<Rightarrow> [Parse repaired])"
    by (simp add: createRecipe_calls[OF assms] parseAiText_calls)
  have 1: "take 2 (snd (snd (createRecipe w st b))) =
           [AICall ''gemini-1.5-flash'' prompt, Repair ?clean]"
    by (simp add: calls)
  have 2: "length (filter isRepair (snd (snd (createRecipe w st b)))) = 1"
    by (cases "jsonrepair w ?clean") (simp_all add: calls)
  have 3: "length (filter isParse (snd (snd (createRecipe w st b)))) \<le> 1"
    by (cases "jsonrepair w ?clean") (simp_all add: calls)
  have 4: "\<forall>s. Parse s \<in> set (snd (snd (createRecipe w st b))) \<longrightarrow>
              jsonrepair w ?clean = Inr s"
    by (cases "jsonrepair w ?clean") (simp_all add: calls)
  have 5: "jsonrepair w ?clean = Inr repaired \<longrightarrow>
            snd (snd (createRecipe w st b)) =
              [AICall ''gemini-1.5-flash'' prompt, Repair ?clean, Parse repaired]
            \<and> length (filter isParse (snd (snd (createRecipe w st b)))) = 1"
    by (simp add: calls)
  have 6: "jsonrepair w ?clean = Inl e' \<longrightarrow>
            snd (snd (createRecipe w st b)) =
              [AICall ''gemini-1.5-flash'' prompt, Repair ?clean]
            \<and> filter isParse (snd (snd (createRecipe w st b))) = []"
    by (simp add: calls)
  have 7: "JSON_parse w str = Inr v \<longrightarrow> safeJsonParse w str = (Inr v, [Parse str])"
    by (simp add: safeJsonParse_def)
  have 8: "JSON_parse w str = Inl e \<longrightarrow>
            safeJsonParse w str =
              (JSON_parse w (dropCommaBefore CHR '']'' (dropCommaBefore CHR ''}'' str)),
               [Parse str, Parse (dropCommaBefore CHR '']'' (dropCommaBefore CHR ''}'' str))])"
    by (simp add: safeJsonParse_def Let_def)
  from 1 2 3 4 5 6 7 8 show ?thesis by (intro conjI)
qed

theorem create_repairs_first_witness:
  "\<not> keyMissing demo_world
   \<and> take 2 (snd (snd (createRecipe demo_world demo_store demo_create_body))) =
       [AICall ''gemini-1.5-flash''
          (nl @ ''      Generate a detailed recipe with the following details:'' @ nl @
           ''      - Portion size: 4'' @ nl @
           ''      - Category: veg'' @ nl @
           ''      - Difficulty: easy'' @ nl @
           ''      - Ingredients: 2 cups rice, 1 tsp salt'' @ prompt_schema),
        Repair ''{}'']
   \<and> length (filter isRepair (snd (snd (createRecipe demo_world demo_store demo_create_body)))) = 1
   \<and> Parse ''{}'' \<in> set (snd (snd (createRecipe demo_world demo_store demo_create_body)))
   \<and> jsonrepair demo_world ''{}'' = Inr ''{}''
   \<and> tl (snd (snd (createRecipe demo_world demo_store demo_create_body)))
       = [Repair ''{}'', Parse ''{}'']
   \<and> length (filter isParse (snd (snd (createRecipe demo_world demo_store demo_create_body)))) = 1
   \<and> jsonrepair demo_world_badjson [] = Inl (Thrown ''Unexpected end of json string'')
   \<and> tl (snd (snd (createRecipe demo_world_badjson demo_store demo_create_body)))
       = [Repair []]
   \<and> filter isParse (snd (snd (createRecipe demo_world_badjson demo_store demo_create_body)))
       = []
   \<and> safeJsonParse demo_world ''{}'' = (Inr (JObj []), [Parse ''{}''])
   \<and> safeJsonParse demo_world ''{,}'' = (Inr (JObj []), [Parse ''{,}'', Parse ''{}''])"
proof -
  let ?prompt = "nl @ ''      Generate a detailed recipe with the following details:'' @ nl @
           ''      - Portion size: 4'' @ nl @
           ''      - Category: veg'' @ nl @
           ''      - Difficulty: easy'' @ nl @
           ''      - Ingredients: 2 cups rice, 1 tsp salt'' @ prompt_schema"
  let ?calls = "snd (snd (createRecipe demo_world demo_store demo_create_body))"
  let ?bad = "snd (snd (createRecipe demo_world_badjson demo_store demo_create_body))"
  let ?x = "Thrown ''Unexpected end of json string''"
  note c1 = conjunct1
  note c2 = conjunct2
  note T = create_repairs_first[OF demo_key(1) demo_prompt(1) demo_generate(1),
      of demo_store "''{}''" ?x _ "JObj []" "Thrown ''SyntaxError''"]
  note B = create_repairs_first[OF demo_key(2) demo_prompt(2) demo_generate(2),
      of demo_store "''{}''" ?x "''{}''" "JObj []" "Thrown ''SyntaxError''"]
  have d: "dropCommaBefore CHR '']'' (dropCommaBefore CHR ''}'' ''{,}'') = ''{}''"
    by (simp add: is_ws_def)
  have cb: "trim (removeFences (response_text (demo_answer\<lparr>response_text := ''```''\<rparr>))) = []"
    by (simp add: demo_clean trim_def)
  from T[of "''{}''", THEN c1]
  have 1: "take 2 ?calls = [AICall ''gemini-1.5-flash'' ?prompt, Repair ''{}'']"
    by (simp add: demo_clean)
  from T[of "''{}''", THEN c2, THEN c1]
  have 2: "length (filter isRepair ?calls) = 1" .
  from T[of "''{}''", THEN c2, THEN c2, THEN c2, THEN c2, THEN c1] demo_parse(3)
  have 3: "?calls = [AICall ''gemini-1.5-flash'' ?prompt, Repair ''{}'', Parse ''{}'']"
    and 4: "length (filter isParse ?calls) = 1"
    by (simp_all add: demo_clean)
  from 3 have p: "Parse ''{}'' \<in> set ?calls" and tl: "tl ?calls = [Repair ''{}'', Parse ''{}'']"
    by simp_all
  from T[of "''{}''", THEN c2, THEN c2, THEN c2, THEN c1, THEN spec, of "''{}''"] p
  have 5: "jsonrepair demo_world ''{}'' = Inr ''{}''"
    by (simp add: demo_clean)
  from B[THEN c2, THEN c2, THEN c2, THEN c2, THEN c2, THEN c1] demo_parse(4)
  have 6: "tl ?bad = [Repair []]" and 7: "filter isParse ?bad = []"
    by (simp_all add: cb trim_def)
  from T[of "''{}''", THEN c2, THEN c2, THEN c2, THEN c2, THEN c2, THEN c2, THEN c1]
    demo_parse(1)
  have 8: "safeJsonParse demo_world ''{}'' = (Inr (JObj []), [Parse ''{}''])"
    by simp
  note T2 = create_repairs_first[OF demo_key(1) demo_prompt(1) demo_generate(1),
      of demo_store "''{}''" ?x "''{,}''" "JObj []" "Thrown ''SyntaxError''"]
  from T2[THEN c2, THEN c2, THEN c2, THEN c2, THEN c2, THEN c2, THEN c2, THEN mp,
      OF demo_parse(2)]
  have "safeJsonParse demo_world ''{,}'' =
     (JSON_parse demo_world (dropCommaBefore CHR '']'' (dropCommaBefore CHR ''}'' ''{,}'')),
      [Parse ''{,}'', Parse (dropCommaBefore CHR '']'' (dropCommaBefore CHR ''}'' ''{,}''))])" .
  then have 9: "safeJsonParse demo_world ''{,}'' = (Inr (JObj []), [Parse ''{,}'', Parse ''{}''])"
    by (simp only: d demo_parse)
  from demo_key(1) 1 2 p 5 tl 4 demo_parse(4) 6 7 8 9 show ?thesis by (intro conjI)
qed

text \<open>
  Claim C9. When the repair pass or the parse of its output throws, recipe creation answers
  500 "AI response JSON invalid" with the raw text of the AI service attached, the store is
  unchanged, and the AI service has been called exactly once.
\<close>

theorem create_parse_failure:
  assumes "\<not> keyMissing w"
    and "createPrompt w b = Inr prompt"
    and "generateContent w ''gemini-1.5-flash'' prompt = Inr result"
    and "fst (parseAiText w (trim (removeFences (response_text result)))) = Inl err"
  shows "fst (createRecipe w st b) =
           \<lparr>status = 500, body = BErrorRaw ''AI response JSON invalid'' (response_text result)\<rparr>
       \<and> fst (snd (createRecipe w st b)) = st
       \<and> filter isAICall (snd (snd (createRecipe w st b))) = [AICall ''gemini-1.5-flash'' prompt]"
proof -
  let ?clean = "trim (removeFences (response_text result))"
  have ev: "filter isAICall (snd (parseAiText w ?clean)) = []"
    by (cases "jsonrepair w ?clean") (simp_all add: parseAiText_def)
  from assms have "createRecipe w st b =
     (\<lparr>status = 500, body = BErrorRaw ''AI response JSON invalid'' (response_text result)\<rparr>,
      st, AICall ''gemini-1.5-flash'' prompt # snd (parseAiText w ?clean))"
    by (simp add: createRecipe_def Let_def)
  with ev show ?thesis by simp
qed

theorem create_parse_failure_witness:
  "\<not> keyMissing demo_world_badjson
   \<and> fst (parseAiText demo_world_badjson (trim (removeFences ''```'')))
       = Inl (Thrown ''Unexpected end of json string'')
   \<and> fst (createRecipe demo_world_badjson demo_store demo_create_body) =
       \<lparr>status = 500, body = BErrorRaw ''AI response JSON invalid'' ''```''\<rparr>
   \<and> fst (snd (createRecipe demo_world_badjson demo_store demo_create_body)) = demo_store
   \<and> length (filter isAICall
        (snd (snd (createRecipe demo_world_badjson demo_store demo_create_body)))) = 1"
proof -
  have f: "fst (parseAiText demo_world_badjson
             (trim (removeFences (response_text (demo_answer\<lparr>response_text := ''```''\<rparr>)))))
       = Inl (Thrown ''Unexpected end of json string'')"
    by (simp add: demo_clean parseAiText_def demo_parse trim_def)
  from create_parse_failure[OF demo_key(2) demo_prompt(2) demo_generate(2) f, of demo_store] f
    demo_key(2)
  show ?thesis by simp
qed




end
